theory Spec2Isabelle
  imports Complex_Main "HOL-Library.Word"
begin

section \<open>Data model of \<^verbatim>\<open>src/pages/Index.tsx\<close>\<close>

text \<open>
  The component \<^verbatim>\<open>Index\<close> keeps nine \<^verbatim>\<open>useState\<close> cells and three refs, and talks to
  four host facilities: camera streams, the speech-synthesis queue, timers and the
  console. Every handler of the component is embedded as a function from the state
  before the handler to the state after it. A handler that suspends at an \<^verbatim>\<open>await\<close> is
  embedded as the part before the suspension (which registers the pending request) and
  the part after it (which takes the state at the time of resumption).
\<close>

subsection \<open>Strings\<close>

text \<open>
  A JavaScript string is a sequence of UTF-16 code units. \<open>js\<close> writes a literal whose
  characters are all below U+0100. The empty string is the only falsy string.
\<close>

type_synonym jsstring = "16 word list"

definition js :: "string \<Rightarrow> jsstring" where
  "js s = map (\<lambda>c. of_char c) s"

text \<open>
  \<^verbatim>\<open>String.prototype.trim\<close> removes leading and trailing WhiteSpace and LineTerminator
  code points (ECMAScript, sections "White Space" and "Line Terminators"): TAB, LF, VT,
  FF, CR, SPACE, NBSP, the Unicode space separators and ZWNBSP.
\<close>

definition isWhiteSpace :: "16 word \<Rightarrow> bool" where
  "isWhiteSpace c \<longleftrightarrow>
     c \<in> set [0x0009, 0x000A, 0x000B, 0x000C, 0x000D, 0x0020, 0x00A0, 0x1680,
              0x2028, 0x2029, 0x202F, 0x205F, 0x3000, 0xFEFF]
     \<or> (0x2000 \<le> c \<and> c \<le> 0x200A)"

definition trim :: "jsstring \<Rightarrow> jsstring" where
  "trim s = rev (dropWhile isWhiteSpace (rev (dropWhile isWhiteSpace s)))"

text \<open>Decimal rendering of a non-negative integer inside a template literal.\<close>

fun decimal :: "nat \<Rightarrow> string" where
  "decimal n =
     (if n < 10 then [char_of (48 + n)]
      else decimal (n div 10) @ [char_of (48 + n mod 10)])"

declare decimal.simps [simp del]

subsection \<open>Values held by the component\<close>

text \<open>\<^verbatim>\<open>translateMode\<close> only ever holds \<^verbatim>\<open>'camera'\<close> or \<^verbatim>\<open>'text'\<close>.\<close>

datatype mode = Camera | Text

text \<open>
  \<^verbatim>\<open>ttsSettings\<close>. The three numbers are only stored and copied into an utterance, never
  computed with, so they are reals here.
\<close>

record tts_settings =
  language :: jsstring
  pitch :: real
  rate :: real
  volume :: real

definition LANGUAGE_OPTIONS :: "(jsstring \<times> jsstring) list" where
  "LANGUAGE_OPTIONS =
     [(js ''en'', js ''English''), (js ''es'', js ''Spanish''), (js ''fr'', js ''French''),
      (js ''de'', js ''German''), (js ''it'', js ''Italian'')]"

text \<open>
  The ranges of the settings: the language buttons offer the codes of
  \<open>LANGUAGE_OPTIONS\<close>, the sliders offer rate 0.5 to 1.5 and pitch 0.5 to 2, and volume
  is a factor between 0 and 1.
\<close>

definition valid_settings :: "tts_settings \<Rightarrow> bool" where
  "valid_settings t \<longleftrightarrow>
     language t \<in> set (map fst LANGUAGE_OPTIONS) \<and>
     0.5 \<le> pitch t \<and> pitch t \<le> 2 \<and>
     0.5 \<le> rate t \<and> rate t \<le> 1.5 \<and>
     0 \<le> volume t \<and> volume t \<le> 1"

text \<open>A \<^verbatim>\<open>SpeechSynthesisUtterance\<close> with the four attributes \<^verbatim>\<open>speakText\<close> sets.\<close>

record utterance =
  u_text :: jsstring
  u_lang :: jsstring
  u_pitch :: real
  u_rate :: real
  u_volume :: real

text \<open>A \<^verbatim>\<open>MediaStream\<close> is known by its handle.\<close>

type_synonym stream = nat

text \<open>The \<^verbatim>\<open>video\<close> and \<^verbatim>\<open>canvas\<close> elements, with the attributes the component writes.\<close>

record video =
  srcObject :: "stream option"

record canvas =
  width :: nat
  height :: nat

datatype exn = TypeError | DOMException string

datatype console_entry = Log jsstring | Error jsstring "exn option"

text \<open>
  A pending \<^verbatim>\<open>getUserMedia\<close> promise, tagged with the function that awaits it.
\<close>

datatype media_request = FromSetupCamera | FromRequestCameraPermission

subsection \<open>The state\<close>

text \<open>
  The first nine fields are the \<^verbatim>\<open>useState\<close> cells, the next three are the refs
  (\<open>None\<close> is \<^verbatim>\<open>current === null\<close>), the rest is the host:
  \<^item> \<open>speechSynthesis\<close> is \<open>None\<close> when \<^verbatim>\<open>'speechSynthesis' in window\<close> is false, and
    otherwise the queue of utterances submitted with \<^verbatim>\<open>speak\<close> and neither finished
    nor cancelled (\<^verbatim>\<open>speak\<close> appends to the queue, \<^verbatim>\<open>cancel\<close> empties it);
  \<^item> \<open>liveStreams\<close> holds the handles of acquired streams whose tracks have not been
    stopped;
  \<^item> \<open>timers\<close> holds the delays of the pending \<^verbatim>\<open>setTimeout\<close> calls, each of which
    resumes one invocation of \<^verbatim>\<open>captureImage\<close>;
  \<^item> \<open>mediaRequests\<close> holds the pending \<^verbatim>\<open>getUserMedia\<close> promises;
  \<^item> \<open>console\<close>, \<open>alerts\<close> and \<open>downloads\<close> record what was written, alerted and
    offered for download (address and file name).
\<close>

record world =
  hasCameraPermission :: bool
  translatedText :: jsstring
  inputText :: jsstring
  capturedImage :: "jsstring option"
  isProcessing :: bool
  translateMode :: mode
  ttsSettings :: tts_settings
  showSettings :: bool
  isSpeaking :: bool
  videoRef :: "video option"
  canvasRef :: "canvas option"
  streamRef :: "stream option"
  speechSynthesis :: "utterance list option"
  liveStreams :: "stream set"
  timers :: "nat list"
  mediaRequests :: "media_request list"
  console :: "console_entry list"
  alerts :: "jsstring list"
  downloads :: "(jsstring \<times> jsstring) list"

text \<open>
  The state of a freshly constructed component (lines 26 to 44); \<open>synth\<close> tells whether
  the browser has speech synthesis.
\<close>

definition initial :: "bool \<Rightarrow> world" where
  "initial synth =
     \<lparr> hasCameraPermission = False,
       translatedText = [],
       inputText = [],
       capturedImage = None,
       isProcessing = False,
       translateMode = Camera,
       ttsSettings = \<lparr> language = js ''en'', pitch = 1, rate = 0.75, volume = 1 \<rparr>,
       showSettings = False,
       isSpeaking = False,
       videoRef = None,
       canvasRef = None,
       streamRef = None,
       speechSynthesis = (if synth then Some [] else None),
       liveStreams = {},
       timers = [],
       mediaRequests = [],
       console = [],
       alerts = [],
       downloads = [] \<rparr>"

definition console_log :: "string \<Rightarrow> world \<Rightarrow> world" where
  "console_log m w = w\<lparr>console := console w @ [Log (js m)]\<rparr>"

definition console_error :: "string \<Rightarrow> exn option \<Rightarrow> world \<Rightarrow> world" where
  "console_error m e w = w\<lparr>console := console w @ [Error (js m) e]\<rparr>"

section \<open>The handlers\<close>

subsection \<open>Camera set-up and clean-up (lines 47 to 78)\<close>

text \<open>
  What the host does when a \<^verbatim>\<open>getUserMedia\<close> promise settles: a granted request
  comes with a stream whose tracks are live.
\<close>

definition getUserMedia :: "exn + stream \<Rightarrow> world \<Rightarrow> world" where
  "getUserMedia r w =
     (case r of
        Inr stream \<Rightarrow> w\<lparr>liveStreams := insert stream (liveStreams w)\<rparr>
      | Inl error \<Rightarrow> w)"

text \<open>
  \<^verbatim>\<open>setupCamera\<close> after its \<^verbatim>\<open>await\<close>: \<open>r\<close> is how the promise settled and \<open>w\<close> the
  state at that time.
\<close>

definition setupCamera :: "exn + stream \<Rightarrow> world \<Rightarrow> world" where
  "setupCamera r w =
     (case r of
        Inr stream \<Rightarrow>
          (let w1 = (case videoRef w of
                       Some v \<Rightarrow> w\<lparr>videoRef := Some (v\<lparr>srcObject := Some stream\<rparr>),
                                   streamRef := Some stream\<rparr>
                     | None \<Rightarrow> w)
           in w1\<lparr>hasCameraPermission := True\<rparr>)
      | Inl error \<Rightarrow>
          (console_error ''Camera access denied:'' (Some error) w)
            \<lparr>hasCameraPermission := False\<rparr>)"

text \<open>The body of the effect: it calls \<^verbatim>\<open>setupCamera\<close>, which suspends at once.\<close>

definition effect :: "world \<Rightarrow> world" where
  "effect w =
     (if translateMode w = Camera
      then w\<lparr>mediaRequests := mediaRequests w @ [FromSetupCamera]\<rparr>
      else w)"

text \<open>The function the effect returns.\<close>

definition cleanup :: "world \<Rightarrow> world" where
  "cleanup w =
     (let w1 = (case streamRef w of
                  Some stream \<Rightarrow> w\<lparr>liveStreams := liveStreams w - {stream}\<rparr>
                | None \<Rightarrow> w)
      in case speechSynthesis w1 of
           Some q \<Rightarrow> w1\<lparr>speechSynthesis := Some []\<rparr>
         | None \<Rightarrow> w1)"

subsection \<open>Speech (lines 81 to 118)\<close>

definition speakText :: "world \<Rightarrow> world" where
  "speakText w =
     (if translatedText w = [] \<or> speechSynthesis w = None then w
      else
        (let w1 = w\<lparr>isSpeaking := True\<rparr>;
             u = \<lparr> u_text = translatedText w,
                   u_lang = language (ttsSettings w),
                   u_pitch = pitch (ttsSettings w),
                   u_rate = rate (ttsSettings w),
                   u_volume = volume (ttsSettings w) \<rparr>
         in w1\<lparr>speechSynthesis := map_option (\<lambda>q. q @ [u]) (speechSynthesis w1)\<rparr>))"

text \<open>The two callbacks \<^verbatim>\<open>speakText\<close> installs on the utterance.\<close>

definition utterance_onend :: "world \<Rightarrow> world" where
  "utterance_onend w = w\<lparr>isSpeaking := False\<rparr>"

definition utterance_onerror :: "world \<Rightarrow> world" where
  "utterance_onerror w = (console_error ''Speech error'' None w)\<lparr>isSpeaking := False\<rparr>"

definition stopSpeaking :: "world \<Rightarrow> world" where
  "stopSpeaking w =
     (let w1 = (case speechSynthesis w of
                  Some q \<Rightarrow> w\<lparr>speechSynthesis := Some []\<rparr>
                | None \<Rightarrow> w)
      in w1\<lparr>isSpeaking := False\<rparr>)"

definition toggleSettings :: "world \<Rightarrow> world" where
  "toggleSettings w = w\<lparr>showSettings := \<not> showSettings w\<rparr>"

text \<open>
  \<^verbatim>\<open>updateTtsSetting(key, value)\<close> is called with the key \<^verbatim>\<open>'language'\<close> and a string,
  and with the keys \<^verbatim>\<open>'rate'\<close> and \<^verbatim>\<open>'pitch'\<close> and a number.
\<close>

datatype tts_update = Language_is jsstring | Rate_is real | Pitch_is real

definition updateTtsSetting :: "tts_update \<Rightarrow> world \<Rightarrow> world" where
  "updateTtsSetting kv w =
     (case kv of
        Language_is v \<Rightarrow> w\<lparr>ttsSettings := (ttsSettings w)\<lparr>language := v\<rparr>\<rparr>
      | Rate_is v \<Rightarrow> w\<lparr>ttsSettings := (ttsSettings w)\<lparr>rate := v\<rparr>\<rparr>
      | Pitch_is v \<Rightarrow> w\<lparr>ttsSettings := (ttsSettings w)\<lparr>pitch := v\<rparr>\<rparr>)"

subsection \<open>Capture (lines 121 to 159)\<close>

text \<open>
  What the host answers during one capture: the intrinsic size of the video, whether
  \<^verbatim>\<open>getContext('2d')\<close> returns a context, whether \<^verbatim>\<open>drawImage\<close> throws, and what
  \<^verbatim>\<open>toDataURL\<close> returns or throws.
\<close>

record host =
  videoWidth :: nat
  videoHeight :: nat
  getContext :: bool
  drawImage :: "exn option"
  toDataURL :: "exn + jsstring"

text \<open>
  Lines 135 to 139: calling \<^verbatim>\<open>drawImage\<close> on a null context is a \<^verbatim>\<open>TypeError\<close>.
\<close>

definition snapshot :: "host \<Rightarrow> exn + jsstring" where
  "snapshot h =
     (if \<not> getContext h then Inl TypeError
      else case drawImage h of
             Some e \<Rightarrow> Inl e
           | None \<Rightarrow> toDataURL h)"

definition placeholder :: jsstring where
  "placeholder = js ''Hello! How are you? (Sample Sign Language Translation)''"

definition error_placeholder :: jsstring where
  "error_placeholder = js ''Error in translation''"

text \<open>The \<^verbatim>\<open>catch\<close> block of \<^verbatim>\<open>captureImage\<close>.\<close>

definition captureImage_catch :: "exn \<Rightarrow> world \<Rightarrow> world" where
  "captureImage_catch error w =
     (console_error ''Image capture error:'' (Some error) w)
       \<lparr>translatedText := error_placeholder, isProcessing := False\<rparr>"

text \<open>
  \<^verbatim>\<open>captureImage\<close> up to its \<^verbatim>\<open>await\<close>: the suspension leaves one timer of 2000 ms
  pending.
\<close>

definition captureImage :: "host \<Rightarrow> world \<Rightarrow> world" where
  "captureImage h w =
     (case (videoRef w, canvasRef w) of
        (Some v, Some c) \<Rightarrow>
          (let w1 = console_log ''Capturing image from video'' w;
               c' = c\<lparr>width := videoWidth h, height := videoHeight h\<rparr>;
               w2 = w1\<lparr>canvasRef := Some c'\<rparr>;
               w3 = console_log (''Canvas dimensions set to '' @ decimal (width c')
                                  @ ''x'' @ decimal (height c')) w2
           in case snapshot h of
                Inl error \<Rightarrow> captureImage_catch error w3
              | Inr imageDataUrl \<Rightarrow>
                  (let w4 = console_log ''Image captured successfully'' w3;
                       w5 = w4\<lparr>capturedImage := Some imageDataUrl\<rparr>;
                       w6 = w5\<lparr>isProcessing := True\<rparr>
                   in w6\<lparr>timers := timers w6 @ [2000]\<rparr>))
      | _ \<Rightarrow> console_error ''Video or canvas refs not available'' None w)"

text \<open>\<^verbatim>\<open>captureImage\<close> after its \<^verbatim>\<open>await\<close> (lines 152 and 153).\<close>

definition captureImage_resume :: "world \<Rightarrow> world" where
  "captureImage_resume w = w\<lparr>translatedText := placeholder, isProcessing := False\<rparr>"

subsection \<open>Reset, download, text translation, permission (lines 161 to 195)\<close>

definition resetTranslation :: "world \<Rightarrow> world" where
  "resetTranslation w = w\<lparr>translatedText := [], inputText := [], capturedImage := None\<rparr>"

text \<open>\<open>now\<close> is the value of \<^verbatim>\<open>Date.now()\<close>.\<close>

definition downloadImage :: "nat \<Rightarrow> world \<Rightarrow> world" where
  "downloadImage now w =
     (case capturedImage w of
        Some href \<Rightarrow>
          (if href \<noteq> []
           then w\<lparr>downloads := downloads w
                  @ [(href, js (''sign_language_capture_'' @ decimal now @ ''.jpg''))]\<rparr>
           else w)
      | None \<Rightarrow> w)"

definition handleTextTranslation :: "world \<Rightarrow> world" where
  "handleTextTranslation w =
     (if trim (inputText w) \<noteq> [] then w\<lparr>translatedText := inputText w\<rparr> else w)"

text \<open>\<^verbatim>\<open>requestCameraPermission\<close> after its \<^verbatim>\<open>await\<close>.\<close>

definition requestCameraPermission :: "exn + stream \<Rightarrow> world \<Rightarrow> world" where
  "requestCameraPermission r w =
     (case r of
        Inr stream \<Rightarrow>
          (let w1 = (case videoRef w of
                       Some v \<Rightarrow> w\<lparr>videoRef := Some (v\<lparr>srcObject := Some stream\<rparr>),
                                   streamRef := Some stream\<rparr>
                     | None \<Rightarrow> w)
           in w1\<lparr>hasCameraPermission := True\<rparr>)
      | Inl err \<Rightarrow>
          (let w1 = console_error ''Camera access error:'' (Some err) w
           in w1\<lparr>alerts := alerts w1 @
                [js ''Camera access denied. Please enable camera access in your browser settings.'']\<rparr>))"

section \<open>The rendered interface (lines 197 to 457)\<close>

text \<open>
  The JSX decides which elements exist and which handler a click reaches. The image
  replaces the live preview when \<^verbatim>\<open>capturedImage\<close> is truthy (neither \<^verbatim>\<open>null\<close> nor the
  empty string).
\<close>

definition has_image :: "world \<Rightarrow> bool" where
  "has_image w = (case capturedImage w of None \<Rightarrow> False | Some href \<Rightarrow> href \<noteq> [])"

text \<open>
  Lines 239, 246 and 270 to 280: the \<^verbatim>\<open>video\<close> and \<^verbatim>\<open>canvas\<close> elements exist in camera
  mode, without a captured image and with permission. Committing a rendering attaches
  the refs to the elements that exist (a new \<^verbatim>\<open>video\<close> has no source, a new \<^verbatim>\<open>canvas\<close>
  is 300 by 150) and clears the refs of those that do not.
\<close>

definition preview_rendered :: "world \<Rightarrow> bool" where
  "preview_rendered w \<longleftrightarrow> translateMode w = Camera \<and> \<not> has_image w \<and> hasCameraPermission w"

definition commit :: "world \<Rightarrow> world" where
  "commit w =
     (if preview_rendered w
      then w\<lparr>videoRef := Some (case videoRef w of Some v \<Rightarrow> v | None \<Rightarrow> \<lparr>srcObject = None\<rparr>),
             canvasRef := Some (case canvasRef w of Some c \<Rightarrow> c
                                | None \<Rightarrow> \<lparr>width = 300, height = 150\<rparr>)\<rparr>
      else w\<lparr>videoRef := None, canvasRef := None\<rparr>)"

text \<open>
  Lines 296 to 306: the capture button exists with the preview and carries
  \<^verbatim>\<open>disabled={isProcessing}\<close>; a disabled button receives no click.
\<close>

definition captureButton_rendered :: "world \<Rightarrow> bool" where
  "captureButton_rendered w \<longleftrightarrow> translateMode w = Camera \<and> \<not> has_image w \<and> hasCameraPermission w"

definition captureButton_disabled :: "world \<Rightarrow> bool" where
  "captureButton_disabled w \<longleftrightarrow> isProcessing w"

text \<open>
  \<^verbatim>\<open>setTranslateMode\<close> from the two tabs (lines 222 and 229). Setting the mode it already
  has changes nothing. Otherwise the component renders again and, \<^verbatim>\<open>translateMode\<close>
  being the effect's dependency, the clean-up of the previous effect runs and then the
  effect.
\<close>

definition setTranslateMode :: "mode \<Rightarrow> world \<Rightarrow> world" where
  "setTranslateMode m w =
     (if translateMode w = m then w
      else effect (cleanup (commit (w\<lparr>translateMode := m\<rparr>))))"

text \<open>Mounting renders the initial state and runs the effect; unmounting cleans up.\<close>

definition mount :: "bool \<Rightarrow> world" where
  "mount synth = effect (commit (initial synth))"

definition unmount :: "world \<Rightarrow> world" where
  "unmount w = cleanup w"

text \<open>
  What can happen to a mounted component: the clicks and changes the interface offers,
  and the host's events (a \<^verbatim>\<open>getUserMedia\<close> promise settles, a timer fires, the utterance
  at the head of the queue ends, an utterance fails while queued or after a cancel).
\<close>

datatype event =
    ClickCameraTab
  | ClickTextTab
  | GetUserMediaSettles "exn + stream"
  | ClickEnableCamera
  | ClickCapture host
  | TimeoutFires
  | ClickDiscard
  | ClickDownload nat
  | ChangeInputText jsstring
  | ClickProcessText
  | ClickReset
  | ClickToggleSettings
  | ClickLanguage nat
  | ChangeRate real
  | ChangePitch real
  | ClickSpeakButton
  | UtteranceEnds
  | UtteranceErrors bool

fun fire :: "event \<Rightarrow> world \<Rightarrow> world" where
  "fire ClickCameraTab w = setTranslateMode Camera w"
| "fire ClickTextTab w = setTranslateMode Text w"
| "fire (GetUserMediaSettles r) w =
     (case mediaRequests w of
        [] \<Rightarrow> w
      | req # rest \<Rightarrow>
          (let w1 = getUserMedia r (w\<lparr>mediaRequests := rest\<rparr>)
           in commit (case req of
                        FromSetupCamera \<Rightarrow> setupCamera r w1
                      | FromRequestCameraPermission \<Rightarrow> requestCameraPermission r w1)))"
| "fire ClickEnableCamera w =
     (if translateMode w = Camera \<and> \<not> has_image w \<and> \<not> hasCameraPermission w
      then w\<lparr>mediaRequests := mediaRequests w @ [FromRequestCameraPermission]\<rparr>
      else w)"
| "fire (ClickCapture h) w =
     (if captureButton_rendered w \<and> \<not> captureButton_disabled w
      then commit (captureImage h w)
      else w)"
| "fire TimeoutFires w =
     (case timers w of
        [] \<Rightarrow> w
      | d # rest \<Rightarrow> commit (captureImage_resume (w\<lparr>timers := rest\<rparr>)))"
| "fire ClickDiscard w =
     (if translateMode w = Camera \<and> has_image w
      then commit (w\<lparr>capturedImage := None\<rparr>)
      else w)"
| "fire (ClickDownload now) w =
     (if translateMode w = Camera \<and> has_image w then downloadImage now w else w)"
| "fire (ChangeInputText v) w =
     (if translateMode w = Text then w\<lparr>inputText := v\<rparr> else w)"
| "fire ClickProcessText w =
     (if translateMode w = Text then handleTextTranslation w else w)"
| "fire ClickReset w =
     (if translatedText w \<noteq> [] then commit (resetTranslation w) else w)"
| "fire ClickToggleSettings w =
     (if translatedText w \<noteq> [] then toggleSettings w else w)"
| "fire (ClickLanguage n) w =
     (if translatedText w \<noteq> [] \<and> showSettings w \<and> n < length LANGUAGE_OPTIONS
      then updateTtsSetting (Language_is (fst (LANGUAGE_OPTIONS ! n))) w
      else w)"
| "fire (ChangeRate v) w =
     (if translatedText w \<noteq> [] \<and> showSettings w \<and> 0.5 \<le> v \<and> v \<le> 1.5
      then updateTtsSetting (Rate_is v) w
      else w)"
| "fire (ChangePitch v) w =
     (if translatedText w \<noteq> [] \<and> showSettings w \<and> 0.5 \<le> v \<and> v \<le> 2
      then updateTtsSetting (Pitch_is v) w
      else w)"
| "fire ClickSpeakButton w =
     (if translatedText w \<noteq> []
      then (if isSpeaking w then stopSpeaking w else speakText w)
      else w)"
| "fire UtteranceEnds w =
     (case speechSynthesis w of
        Some (u # q) \<Rightarrow> utterance_onend (w\<lparr>speechSynthesis := Some q\<rparr>)
      | _ \<Rightarrow> w)"
| "fire (UtteranceErrors queued) w =
     (case speechSynthesis w of
        Some q \<Rightarrow> utterance_onerror (w\<lparr>speechSynthesis := Some (if queued then tl q else q)\<rparr>)
      | None \<Rightarrow> w)"

fun run :: "event list \<Rightarrow> world \<Rightarrow> world" where
  "run [] w = w"
| "run (e # es) w = run es (fire e w)"

text \<open>
  A translation is in flight while a timer of \<^verbatim>\<open>captureImage\<close> is pending; the flag and
  the timers agree when a timer is pending exactly while \<^verbatim>\<open>isProcessing\<close> is set.
\<close>

definition in_flight :: "world \<Rightarrow> nat" where
  "in_flight w = length (timers w)"

definition flag_tracks_timers :: "world \<Rightarrow> bool" where
  "flag_tracks_timers w \<longleftrightarrow> in_flight w = (if isProcessing w then 1 else 0)"

text \<open>The number of utterances in the speech queue.\<close>

definition queued :: "world \<Rightarrow> nat" where
  "queued w = (case speechSynthesis w of None \<Rightarrow> 0 | Some q \<Rightarrow> length q)"

section \<open>Scenarios\<close>

text \<open>
  A host on which drawing and encoding succeed, and one whose canvas gives no context.
\<close>

definition granted_host :: host where
  "granted_host =
     \<lparr> videoWidth = 640, videoHeight = 480, getContext = True, drawImage = None,
       toDataURL = Inr (js ''data:image/jpeg;base64,AA'') \<rparr>"

definition failing_host :: host where
  "failing_host = granted_host\<lparr>getContext := False\<rparr>"

text \<open>
  The component after mounting in a browser with speech synthesis and after the user
  has granted the camera (the stream has handle 0); the same after a click on the
  capture button.
\<close>

definition granted :: world where
  "granted = fire (GetUserMediaSettles (Inr 0)) (mount True)"

definition capturing :: world where
  "capturing = fire (ClickCapture granted_host) granted"

text \<open>
  The utterance \<^verbatim>\<open>speakText\<close> builds for the result \<^verbatim>\<open>"hi"\<close> under the initial settings,
  and a session with the playback button: the user switches to text mode, types
  \<^verbatim>\<open>hi\<close> and submits it, then clicks the playback button three times (start, stop,
  start again); after the third click the error event of the utterance that the second
  click cancelled arrives.
\<close>

definition hi_utterance :: utterance where
  "hi_utterance =
     \<lparr> u_text = js ''hi'', u_lang = js ''en'', u_pitch = 1, u_rate = 0.75, u_volume = 1 \<rparr>"

definition late_error_run :: "event list" where
  "late_error_run =
     [ClickTextTab, ChangeInputText (js ''hi''), ClickProcessText,
      ClickSpeakButton, ClickSpeakButton, ClickSpeakButton, UtteranceErrors False]"

section \<open>Facts about the scenarios\<close>

lemma trim_hello: "trim (js ''  hello  '') = js ''hello''"
  by (simp add: trim_def js_def isWhiteSpace_def)

lemma trim_blank: "trim (js ''   '') = []"
  by (simp add: trim_def js_def isWhiteSpace_def)

lemma js_hi: "js ''hi'' \<noteq> []"
  by (simp add: js_def)

lemma trim_hi: "trim (js ''hi'') = js ''hi''"
  by (simp add: trim_def js_def isWhiteSpace_def)

text \<open>
  After the grant the preview exists, permission is set, and the stream is live, but
  \<open>streamRef\<close> is still empty: when the promise settled there was no \<^verbatim>\<open>video\<close> element,
  since the preview is only rendered once permission is set.
\<close>

lemma granted_eq:
  "granted = (initial True)\<lparr>hasCameraPermission := True,
       videoRef := Some \<lparr>srcObject = None\<rparr>,
       canvasRef := Some \<lparr>width = 300, height = 150\<rparr>,
       liveStreams := {0}\<rparr>"
  by (simp add: granted_def mount_def effect_def commit_def initial_def preview_rendered_def
      has_image_def getUserMedia_def setupCamera_def)

lemma granted_refs:
  "videoRef granted = Some \<lparr>srcObject = None\<rparr>"
  "canvasRef granted = Some \<lparr>width = 300, height = 150\<rparr>"
  by (simp_all add: granted_eq)

lemma granted_button:
  "captureButton_rendered granted" "\<not> captureButton_disabled granted"
  by (simp_all add: granted_eq captureButton_rendered_def captureButton_disabled_def
      has_image_def initial_def)

lemma snapshot_granted_host:
  "snapshot granted_host = Inr (js ''data:image/jpeg;base64,AA'')"
  by (simp add: snapshot_def granted_host_def)

lemma snapshot_failing_host: "snapshot failing_host = Inl TypeError"
  by (simp add: snapshot_def failing_host_def)

text \<open>
  The session step by step. After the submission the result is \<^verbatim>\<open>"hi"\<close>; the first
  click starts an utterance, the second cancels it, the third starts another; the late
  error event then clears the speaking flag although that utterance is still queued.
\<close>

lemma submitted_eq:
  "run [ClickTextTab, ChangeInputText (js ''hi''), ClickProcessText] (mount True)
     = (initial True)\<lparr>translateMode := Text, mediaRequests := [FromSetupCamera],
          inputText := js ''hi'', translatedText := js ''hi''\<rparr>"
  by (simp add: mount_def effect_def commit_def preview_rendered_def has_image_def
      setTranslateMode_def cleanup_def handleTextTranslation_def trim_hi js_hi initial_def)

lemma run_append: "run (es @ es') w = run es' (run es w)"
  by (induction es arbitrary: w) simp_all

lemma late_error_eq:
  "run late_error_run (mount True)
     = (initial True)\<lparr>translateMode := Text, mediaRequests := [FromSetupCamera],
          inputText := js ''hi'', translatedText := js ''hi'',
          speechSynthesis := Some [hi_utterance], isSpeaking := False,
          console := [Error (js ''Speech error'') None]\<rparr>"
proof -
  have "run late_error_run (mount True)
          = run [ClickSpeakButton, ClickSpeakButton, ClickSpeakButton, UtteranceErrors False]
              (run [ClickTextTab, ChangeInputText (js ''hi''), ClickProcessText] (mount True))"
    unfolding late_error_run_def by (simp del: fire.simps)
  then show ?thesis
    unfolding submitted_eq
    by (simp add: speakText_def stopSpeaking_def utterance_onerror_def console_error_def
        hi_utterance_def js_hi initial_def)
qed

section \<open>What each handler leaves alone\<close>

lemma commit_frame:
  "timers (commit w) = timers w" "isProcessing (commit w) = isProcessing w"
  "translatedText (commit w) = translatedText w"
  "speechSynthesis (commit w) = speechSynthesis w" "isSpeaking (commit w) = isSpeaking w"
  "liveStreams (commit w) = liveStreams w" "streamRef (commit w) = streamRef w"
  by (simp_all add: commit_def)

lemma media_frame:
  "timers (getUserMedia r w) = timers w" "isProcessing (getUserMedia r w) = isProcessing w"
  "timers (setupCamera r w) = timers w" "isProcessing (setupCamera r w) = isProcessing w"
  "timers (requestCameraPermission r w) = timers w"
  "isProcessing (requestCameraPermission r w) = isProcessing w"
  by (simp_all add: getUserMedia_def setupCamera_def requestCameraPermission_def
      console_error_def Let_def split: sum.splits option.splits)

lemma mode_frame:
  "timers (setTranslateMode m w) = timers w"
  "isProcessing (setTranslateMode m w) = isProcessing w"
  by (simp_all add: setTranslateMode_def effect_def cleanup_def commit_frame Let_def
      split: option.splits)

lemma speech_frame:
  "timers (speakText w) = timers w" "isProcessing (speakText w) = isProcessing w"
  "timers (stopSpeaking w) = timers w" "isProcessing (stopSpeaking w) = isProcessing w"
  "timers (utterance_onend w) = timers w" "isProcessing (utterance_onend w) = isProcessing w"
  "timers (utterance_onerror w) = timers w"
  "isProcessing (utterance_onerror w) = isProcessing w"
  "timers (toggleSettings w) = timers w" "isProcessing (toggleSettings w) = isProcessing w"
  "timers (updateTtsSetting kv w) = timers w"
  "isProcessing (updateTtsSetting kv w) = isProcessing w"
  by (simp_all add: speakText_def stopSpeaking_def utterance_onend_def utterance_onerror_def
      toggleSettings_def updateTtsSetting_def console_error_def Let_def
      split: option.splits tts_update.splits)

lemma text_frame:
  "timers (resetTranslation w) = timers w" "isProcessing (resetTranslation w) = isProcessing w"
  "timers (downloadImage now w) = timers w"
  "isProcessing (downloadImage now w) = isProcessing w"
  "timers (handleTextTranslation w) = timers w"
  "isProcessing (handleTextTranslation w) = isProcessing w"
  by (simp_all add: resetTranslation_def downloadImage_def handleTextTranslation_def
      split: option.splits)

section \<open>The processing flag and the pending timers\<close>

lemma commit_flag: "flag_tracks_timers (commit w) = flag_tracks_timers w"
  by (simp add: flag_tracks_timers_def in_flight_def commit_frame)

text \<open>
  \<^verbatim>\<open>captureImage\<close> keeps flag and timers in step when it starts with the flag cleared:
  it either sets the flag and leaves one timer, or clears the flag and leaves none.
\<close>

lemma captureImage_flag:
  "\<not> isProcessing w \<Longrightarrow> flag_tracks_timers w \<Longrightarrow> flag_tracks_timers (captureImage h w)"
  by (simp add: flag_tracks_timers_def in_flight_def captureImage_def captureImage_catch_def
      console_log_def console_error_def Let_def split: option.splits sum.splits)

lemma fire_flag:
  assumes "flag_tracks_timers w"
  shows "flag_tracks_timers (fire e w)"
proof (cases e)
  case (ClickCapture h)
  with assms show ?thesis
    by (simp add: commit_flag captureImage_flag captureButton_disabled_def)
next
  case TimeoutFires
  with assms show ?thesis
    by (auto simp add: commit_frame flag_tracks_timers_def in_flight_def captureImage_resume_def
        split: list.splits if_splits)
next
  case (GetUserMediaSettles r)
  with assms show ?thesis
    by (auto simp add: commit_frame media_frame flag_tracks_timers_def in_flight_def Let_def
        split: list.splits media_request.splits if_splits)
next
  case (UtteranceErrors queued)
  with assms show ?thesis
    by (auto simp add: speech_frame flag_tracks_timers_def in_flight_def
        split: option.splits if_splits)
next
  case UtteranceEnds
  with assms show ?thesis
    by (auto simp add: speech_frame flag_tracks_timers_def in_flight_def
        split: option.splits list.splits if_splits)
qed (use assms in \<open>simp_all add: flag_tracks_timers_def in_flight_def commit_frame mode_frame
      speech_frame text_frame split: if_splits\<close>)

lemma mount_flag: "flag_tracks_timers (mount synth)"
  by (simp add: mount_def effect_def commit_def initial_def flag_tracks_timers_def in_flight_def
      preview_rendered_def)

lemma run_flag: "flag_tracks_timers w \<Longrightarrow> flag_tracks_timers (run es w)"
  by (induction es arbitrary: w) (simp_all add: fire_flag)

lemma flag_bound: "flag_tracks_timers w \<Longrightarrow> in_flight w \<le> 1"
  by (simp add: flag_tracks_timers_def split: if_splits)

lemma capturing_flag: "isProcessing capturing" "timers capturing = [2000]"
  by (simp_all add: capturing_def granted_button commit_frame captureImage_def granted_refs
      snapshot_granted_host console_log_def Let_def)
     (simp_all add: granted_eq initial_def)

section \<open>Text translation\<close>

text \<open>
  C1 (as amended). Submitting the typed text stores the input itself, with its
  surrounding white space, as the translation whenever the trimmed input is non-empty,
  and changes nothing when the input is empty or white space only.
\<close>

theorem handleTextTranslation_verbatim:
  "(trim (inputText w) \<noteq> [] \<longrightarrow> handleTextTranslation w = w\<lparr>translatedText := inputText w\<rparr>)
   \<and> (trim (inputText w) = [] \<longrightarrow> handleTextTranslation w = w)"
  by (simp add: handleTextTranslation_def)

theorem handleTextTranslation_verbatim_witness:
  "trim (inputText ((initial True)\<lparr>inputText := js ''  hello  ''\<rparr>)) \<noteq> []
   \<and> handleTextTranslation ((initial True)\<lparr>inputText := js ''  hello  ''\<rparr>)
       = (initial True)\<lparr>inputText := js ''  hello  '', translatedText := js ''  hello  ''\<rparr>
   \<and> trim (inputText ((initial True)\<lparr>inputText := js ''   ''\<rparr>)) = []
   \<and> handleTextTranslation ((initial True)\<lparr>inputText := js ''   ''\<rparr>)
       = (initial True)\<lparr>inputText := js ''   ''\<rparr>"
proof -
  let ?a = "(initial True)\<lparr>inputText := js ''  hello  ''\<rparr>"
  let ?b = "(initial True)\<lparr>inputText := js ''   ''\<rparr>"
  have a: "trim (inputText ?a) \<noteq> []"
    by (simp add: trim_hello) (simp add: js_def)
  have b: "trim (inputText ?b) = []"
    by (simp add: trim_blank)
  from a handleTextTranslation_verbatim [of ?a]
  have "handleTextTranslation ?a = ?a\<lparr>translatedText := inputText ?a\<rparr>"
    by blast
  moreover from b handleTextTranslation_verbatim [of ?b]
  have "handleTextTranslation ?b = ?b"
    by blast
  ultimately show ?thesis
    using a b by simp
qed

text \<open>
  C1 (as stated) fails: for the input \<^verbatim>\<open>"  hello  "\<close> the result is the input with its
  blanks, which is neither its trimmed form nor \<^verbatim>\<open>"hello"\<close>.
\<close>

theorem handleTextTranslation_not_trimmed:
  "translatedText (handleTextTranslation ((initial True)\<lparr>inputText := js ''  hello  ''\<rparr>))
     = js ''  hello  ''
   \<and> js ''  hello  '' \<noteq> trim (js ''  hello  '')
   \<and> js ''  hello  '' \<noteq> js ''hello''"
  by (simp add: handleTextTranslation_def trim_hello) (simp add: js_def)

section \<open>Speech playback\<close>

text \<open>
  C2 (evaluation at the failing run). \<^verbatim>\<open>speakText\<close> has no cancel; only the playback
  button keeps utterances apart, by sending a click to \<^verbatim>\<open>stopSpeaking\<close> while the
  speaking flag is set. The callbacks \<^verbatim>\<open>onend\<close> and \<^verbatim>\<open>onerror\<close> clear the flag for
  whichever utterance they belong to. In the session \<open>late_error_run\<close>, with the valid
  initial settings, the error event of the cancelled first utterance arrives after the
  second utterance was started: the flag is cleared while the second utterance is still
  queued. The next click on the button therefore runs \<^verbatim>\<open>speakText\<close>, which cancels
  nothing and queues a third utterance behind the second: two utterances are active.
\<close>

theorem speak_button_two_utterances:
  "translatedText (run late_error_run (mount True)) = js ''hi''
   \<and> valid_settings (ttsSettings (run late_error_run (mount True)))
   \<and> speechSynthesis (run late_error_run (mount True)) = Some [hi_utterance]
   \<and> isSpeaking (run late_error_run (mount True)) = False
   \<and> fire ClickSpeakButton (run late_error_run (mount True))
       = speakText (run late_error_run (mount True))
   \<and> speechSynthesis (run (late_error_run @ [ClickSpeakButton]) (mount True))
       = Some [hi_utterance, hi_utterance]
   \<and> queued (run (late_error_run @ [ClickSpeakButton]) (mount True)) = 2"
  unfolding run_append late_error_eq
  by (simp add: speakText_def queued_def hi_utterance_def js_hi initial_def
      valid_settings_def LANGUAGE_OPTIONS_def)

text \<open>
  C10. \<^verbatim>\<open>stopSpeaking\<close> clears the speaking flag in every state. The queue is emptied
  where speech synthesis exists; where it does not (\<open>None\<close>), nothing is cancelled and
  the flag is cleared all the same.
\<close>

theorem stopSpeaking_clears_flag:
  "isSpeaking (stopSpeaking w) = False
   \<and> speechSynthesis (stopSpeaking w) = map_option (\<lambda>q. []) (speechSynthesis w)"
  by (simp add: stopSpeaking_def Let_def split: option.splits)

section \<open>Camera streams\<close>

text \<open>
  C3 (evaluation at the failing run). The component mounts in camera mode and the user
  grants the camera, the stream having handle 0. No \<^verbatim>\<open>video\<close> element exists at that
  time, so \<^verbatim>\<open>setupCamera\<close> does not record the stream in \<open>streamRef\<close>. A click on the
  text tab then runs the clean-up, which finds \<open>streamRef\<close> empty and stops nothing:
  the component is in text mode and stream 0 is still live. Unmounting instead of
  switching leaves it live as well.
\<close>

theorem camera_stream_leak:
  "liveStreams (run [GetUserMediaSettles (Inr 0), ClickTextTab] (mount True)) = {0}
   \<and> streamRef (run [GetUserMediaSettles (Inr 0), ClickTextTab] (mount True)) = None
   \<and> translateMode (run [GetUserMediaSettles (Inr 0), ClickTextTab] (mount True)) = Text
   \<and> liveStreams (unmount (run [GetUserMediaSettles (Inr 0)] (mount True))) = {0}"
proof -
  have a: "run [GetUserMediaSettles (Inr 0), ClickTextTab] (mount True)
             = setTranslateMode Text granted"
    by (simp add: granted_def)
  have b: "run [GetUserMediaSettles (Inr 0)] (mount True) = granted"
    by (simp add: granted_def)
  have c: "setTranslateMode Text granted
             = (initial True)\<lparr>hasCameraPermission := True, translateMode := Text,
                   liveStreams := {0}\<rparr>"
    by (simp add: granted_eq setTranslateMode_def effect_def cleanup_def commit_def
        preview_rendered_def initial_def)
  have d: "liveStreams (unmount granted) = {0}"
    by (simp add: granted_eq unmount_def cleanup_def initial_def)
  show ?thesis
    unfolding a b c using d by (simp add: initial_def)
qed

section \<open>Image capture\<close>

text \<open>
  C4. In every state with a \<^verbatim>\<open>video\<close> and a \<^verbatim>\<open>canvas\<close> element, when drawing and encoding
  succeed with the data URL \<open>url\<close>, \<^verbatim>\<open>captureImage\<close> stores \<open>url\<close> as the captured image,
  sets the processing flag, leaves the translation as it was and suspends on one new
  timer of 2000 ms. Its resumption, in whatever state \<open>w'\<close> the component is by then,
  sets the translation to the placeholder sentence and clears the processing flag; so
  does the next firing of a timer.
\<close>

theorem captureImage_success:
  "videoRef w = Some v \<Longrightarrow> canvasRef w = Some c \<Longrightarrow> snapshot h = Inr url \<Longrightarrow>
   capturedImage (captureImage h w) = Some url
   \<and> isProcessing (captureImage h w) = True
   \<and> timers (captureImage h w) = timers w @ [2000]
   \<and> translatedText (captureImage h w) = translatedText w
   \<and> translatedText (captureImage_resume w')
       = js ''Hello! How are you? (Sample Sign Language Translation)''
   \<and> isProcessing (captureImage_resume w') = False
   \<and> translatedText (fire TimeoutFires (captureImage h w))
       = js ''Hello! How are you? (Sample Sign Language Translation)''
   \<and> isProcessing (fire TimeoutFires (captureImage h w)) = False
   \<and> timers (fire TimeoutFires (captureImage h w)) = tl (timers w @ [2000])"
  by (simp add: captureImage_def console_log_def captureImage_resume_def placeholder_def
      commit_frame Let_def split: list.splits)

theorem captureImage_success_witness:
  "videoRef granted = Some \<lparr>srcObject = None\<rparr>
   \<and> canvasRef granted = Some \<lparr>width = 300, height = 150\<rparr>
   \<and> snapshot granted_host = Inr (js ''data:image/jpeg;base64,AA'')
   \<and> capturedImage (captureImage granted_host granted) = Some (js ''data:image/jpeg;base64,AA'')
   \<and> isProcessing (captureImage granted_host granted) = True
   \<and> timers (captureImage granted_host granted) = [2000]
   \<and> translatedText (fire TimeoutFires (captureImage granted_host granted))
       = js ''Hello! How are you? (Sample Sign Language Translation)''
   \<and> isProcessing (fire TimeoutFires (captureImage granted_host granted)) = False
   \<and> timers (fire TimeoutFires (captureImage granted_host granted)) = []"
proof -
  have t: "timers granted = []"
    by (simp add: granted_eq initial_def)
  from captureImage_success [OF granted_refs snapshot_granted_host] t
    granted_refs snapshot_granted_host
  show ?thesis
    by (simp del: fire.simps)
qed

text \<open>
  C5. The capture button is disabled exactly while the processing flag is set, and a
  click on it in a state with the flag set changes nothing: no second timer is
  started. In every state the mounted component can reach, whatever the events, a
  timer is pending exactly while the flag is set, and at most one translation is in
  flight.
\<close>

theorem capture_single_flight:
  "(isProcessing w \<longrightarrow>
      fire (ClickCapture h) w = w \<and> in_flight (fire (ClickCapture h) w) = in_flight w)
   \<and> captureButton_disabled w = isProcessing w
   \<and> flag_tracks_timers (run es (mount synth))
   \<and> in_flight (run es (mount synth)) \<le> 1"
  using run_flag [OF mount_flag, of es synth] flag_bound [of "run es (mount synth)"]
  by (simp add: captureButton_disabled_def)

theorem capture_single_flight_witness:
  "isProcessing capturing
   \<and> fire (ClickCapture granted_host) capturing = capturing
   \<and> capturing = run [GetUserMediaSettles (Inr 0), ClickCapture granted_host] (mount True)
   \<and> in_flight (run [GetUserMediaSettles (Inr 0), ClickCapture granted_host,
                     ClickCapture granted_host] (mount True)) = 1"
proof -
  have c: "capturing = run [GetUserMediaSettles (Inr 0), ClickCapture granted_host] (mount True)"
    by (simp add: capturing_def granted_def)
  have r: "run [GetUserMediaSettles (Inr 0), ClickCapture granted_host,
                ClickCapture granted_host] (mount True)
           = fire (ClickCapture granted_host) capturing"
    by (simp add: capturing_def granted_def)
  from capture_single_flight [of capturing granted_host
      "[GetUserMediaSettles (Inr 0), ClickCapture granted_host, ClickCapture granted_host]" True]
    capturing_flag
  have "fire (ClickCapture granted_host) capturing = capturing"
    by blast
  with c r capturing_flag show ?thesis
    by (simp add: in_flight_def)
qed

text \<open>
  C7. In every state with a \<^verbatim>\<open>video\<close> and a \<^verbatim>\<open>canvas\<close> element, when drawing or encoding
  throws \<open>e\<close> (the only operations of the \<^verbatim>\<open>try\<close> block that can throw), \<^verbatim>\<open>captureImage\<close>
  catches it: it returns with the translation set to the error placeholder and the
  processing flag cleared, having logged the error, started no timer and stored no
  image.
\<close>

theorem captureImage_failure_caught:
  "videoRef w = Some v \<Longrightarrow> canvasRef w = Some c \<Longrightarrow> snapshot h = Inl e \<Longrightarrow>
   translatedText (captureImage h w) = js ''Error in translation''
   \<and> isProcessing (captureImage h w) = False
   \<and> timers (captureImage h w) = timers w
   \<and> capturedImage (captureImage h w) = capturedImage w
   \<and> last (console (captureImage h w)) = Error (js ''Image capture error:'') (Some e)"
  by (simp add: captureImage_def captureImage_catch_def console_error_def console_log_def
      error_placeholder_def Let_def)

theorem captureImage_failure_caught_witness:
  "videoRef granted = Some \<lparr>srcObject = None\<rparr>
   \<and> canvasRef granted = Some \<lparr>width = 300, height = 150\<rparr>
   \<and> snapshot failing_host = Inl TypeError
   \<and> translatedText (captureImage failing_host granted) = js ''Error in translation''
   \<and> isProcessing (captureImage failing_host granted) = False
   \<and> timers (captureImage failing_host granted) = []
   \<and> capturedImage (captureImage failing_host granted) = None"
proof -
  have t: "timers granted = []" "capturedImage granted = None"
    by (simp_all add: granted_eq initial_def)
  from captureImage_failure_caught [OF granted_refs snapshot_failing_host] t
    granted_refs snapshot_failing_host
  show ?thesis
    by simp
qed

text \<open>
  C8. In every state without a \<^verbatim>\<open>video\<close> element or without a \<^verbatim>\<open>canvas\<close> element,
  \<^verbatim>\<open>captureImage\<close> writes one error to the console and returns: no field of the state
  but the console changes, so no image is stored, the processing flag is not set, no
  timer is started and the translation stays.
\<close>

theorem captureImage_without_refs:
  "videoRef w = None \<or> canvasRef w = None \<Longrightarrow>
   captureImage h w
     = w\<lparr>console := console w @ [Error (js ''Video or canvas refs not available'') None]\<rparr>"
  by (auto simp add: captureImage_def console_error_def split: option.splits)

theorem captureImage_without_refs_witness:
  "(videoRef (initial True) = None \<or> canvasRef (initial True) = None)
   \<and> captureImage granted_host (initial True)
     = (initial True)\<lparr>console := [Error (js ''Video or canvas refs not available'') None]\<rparr>"
proof -
  have h: "videoRef (initial True) = None \<or> canvasRef (initial True) = None"
    by (simp add: initial_def)
  have "console (initial True) = []"
    by (simp add: initial_def)
  with captureImage_without_refs [OF h, of granted_host] h show ?thesis
    by simp
qed

section \<open>Reset\<close>

text \<open>
  C6. In every state, \<^verbatim>\<open>resetTranslation\<close> leaves the translation empty, the typed text
  empty and the captured image \<^verbatim>\<open>null\<close>, all in the one step; no image is shown
  afterwards.
\<close>

theorem resetTranslation_clears:
  "translatedText (resetTranslation w) = []
   \<and> inputText (resetTranslation w) = []
   \<and> capturedImage (resetTranslation w) = None
   \<and> has_image (resetTranslation w) = False"
  by (simp add: resetTranslation_def has_image_def)

text \<open>
  C9. In every state, \<^verbatim>\<open>resetTranslation\<close> leaves the processing flag, the speaking flag,
  the speech settings, the mode and the camera permission as they were; the speech
  queue and the pending timers are untouched too, so a playing utterance goes on and a
  translation in flight stays in flight.
\<close>

theorem resetTranslation_frame:
  "isProcessing (resetTranslation w) = isProcessing w
   \<and> isSpeaking (resetTranslation w) = isSpeaking w
   \<and> ttsSettings (resetTranslation w) = ttsSettings w
   \<and> translateMode (resetTranslation w) = translateMode w
   \<and> hasCameraPermission (resetTranslation w) = hasCameraPermission w
   \<and> speechSynthesis (resetTranslation w) = speechSynthesis w
   \<and> timers (resetTranslation w) = timers w"
  by (simp add: resetTranslation_def)

end
